theory Spec2Isabelle
  imports Main "HOL-Library.Sublist" "HOL-Library.Char_ord" "HOL-Library.List_Lexorder"
    "HOL-Library.Multiset"
begin

section \<open>Theme switcher (src/app/\_components/theme-switcher.tsx)\<close>

text \<open>
  \<^verbatim>\<open>type ColorSchemePreference = "system" | "dark" | "light";\<close>
  The union of three string literals is a datatype; \<open>mode_name\<close> gives back the literal,
  which is what the component writes to storage and to the \<open>data-mode\<close> attribute.
\<close>

datatype ColorSchemePreference = System | Dark | Light

fun mode_name :: "ColorSchemePreference \<Rightarrow> string" where
  "mode_name System = ''system''"
| "mode_name Dark = ''dark''"
| "mode_name Light = ''light''"

definition STORAGE_KEY :: string where
  "STORAGE_KEY = ''nextjs-blog-starter-theme''"

definition modes :: "ColorSchemePreference list" where
  "modes = [System, Dark, Light]"

text \<open>\<^verbatim>\<open>Array.prototype.indexOf\<close>: the first index of the element, \<open>-1\<close> when absent.\<close>

fun indexOf :: "'a list \<Rightarrow> 'a \<Rightarrow> int" where
  "indexOf [] x = - 1"
| "indexOf (y # ys) x =
     (if y = x then 0 else (let i = indexOf ys x in if i < 0 then - 1 else i + 1))"

text \<open>
  The component's React state (\<open>useState("system")\<close>, \<open>useState(false)\<close>) and the part of
  the browser it reads and writes: \<open>localStorage\<close>, the class list and the \<open>data-mode\<close>
  attribute of \<open>document.documentElement\<close>, and the answer of
  \<open>matchMedia('(prefers-color-scheme: dark)').matches\<close>.
\<close>

record switch_state =
  mode :: ColorSchemePreference
  mounted :: bool

record browser =
  localStorage :: "string \<rightharpoonup> string"
  classList :: "string set"
  data_mode :: "string option"
  prefers_dark :: bool

definition initial_state :: switch_state where
  "initial_state = \<lparr>mode = System, mounted = False\<rparr>"

text \<open>
  \<^verbatim>\<open>savedMode && modes.includes(savedMode)\<close>: the stored string, when it is the literal of
  one of the three modes.
\<close>

definition saved_mode :: "browser \<Rightarrow> ColorSchemePreference option" where
  "saved_mode b =
     (case localStorage b STORAGE_KEY of
        None \<Rightarrow> None
      | Some s \<Rightarrow> find (\<lambda>m. mode_name m = s) modes)"

text \<open>The first effect (dependencies \<open>[]\<close>): \<open>setMounted(true)\<close>, then the saved mode if valid.\<close>

definition mount_effect :: "browser \<Rightarrow> switch_state \<Rightarrow> switch_state" where
  "mount_effect b s =
     (case saved_mode b of
        None \<Rightarrow> s\<lparr>mounted := True\<rparr>
      | Some m \<Rightarrow> s\<lparr>mounted := True, mode := m\<rparr>)"

definition applyTheme :: "ColorSchemePreference \<Rightarrow> browser \<Rightarrow> browser" where
  "applyTheme m b =
     (let systemMode = (if prefers_dark b then Dark else Light);
          resolvedMode = (if m = System then systemMode else m);
          removed = classList b - {''dark'', ''light''};
          added = (if resolvedMode = Dark then insert ''dark'' removed else removed)
      in b\<lparr>classList := added,
            data_mode := Some (mode_name m),
            localStorage := (localStorage b)(STORAGE_KEY \<mapsto> mode_name m)\<rparr>)"

text \<open>
  The second effect (dependencies \<open>[mode, mounted]\<close>): nothing before the mount, otherwise
  \<open>applyTheme()\<close> with the mode of the render that scheduled it.
\<close>

definition theme_effect :: "switch_state \<Rightarrow> browser \<Rightarrow> browser" where
  "theme_effect s b = (if \<not> mounted s then b else applyTheme (mode s) b)"

text \<open>\<^verbatim>\<open>setMode(modes[(index + 1) % modes.length])\<close>\<close>

definition handleModeSwitch :: "switch_state \<Rightarrow> switch_state" where
  "handleModeSwitch s =
     s\<lparr>mode := modes ! nat ((indexOf modes (mode s) + 1) mod int (length modes))\<rparr>"

text \<open>
  The component as a transition system on (React state, browser).
  \<^item> \<open>mount\<close>: the first commit runs both effects with the state of the first render
    (\<open>mounted = false\<close>, so the second does nothing); the state set by the first effect
    changes \<open>mounted\<close>, a dependency of the second, which runs after the re-render.
  \<^item> \<open>click\<close>: the click handler of the button, which is rendered only once mounted;
    \<open>handleModeSwitch\<close> calls \<open>setMode\<close> and returns, and touches nothing of the browser.
  \<^item> \<open>commit\<close>: after the handler has returned React renders the new state and runs
    the second effect, a dependency of which has changed.
  \<^item> \<open>toggle\<close>: the two in this order, the whole of what a click causes.
  \<^item> \<open>os_change\<close>: the \<open>change\<close> listener of the media query, registered by the
    second effect (so only once mounted); it re-applies the theme in mode \<open>system\<close> only.
\<close>

definition mount :: "switch_state \<times> browser \<Rightarrow> switch_state \<times> browser" where
  "mount sb =
     (let (s, b) = sb;
          s1 = mount_effect b s;
          b1 = theme_effect s b
      in (s1, theme_effect s1 b1))"

definition click :: "switch_state \<times> browser \<Rightarrow> switch_state \<times> browser" where
  "click sb = (let (s, b) = sb in if \<not> mounted s then (s, b) else (handleModeSwitch s, b))"

definition commit :: "switch_state \<times> browser \<Rightarrow> switch_state \<times> browser" where
  "commit sb = (let (s, b) = sb in (s, theme_effect s b))"

definition toggle :: "switch_state \<times> browser \<Rightarrow> switch_state \<times> browser" where
  "toggle sb = commit (click sb)"

definition os_change :: "bool \<Rightarrow> switch_state \<times> browser \<Rightarrow> switch_state \<times> browser" where
  "os_change dark sb =
     (let (s, b) = sb;
          b1 = b\<lparr>prefers_dark := dark\<rparr>
      in if mounted s \<and> mode s = System then (s, applyTheme (mode s) b1) else (s, b1))"

datatype event = Click | OsChange bool

fun step :: "switch_state \<times> browser \<Rightarrow> event \<Rightarrow> switch_state \<times> browser" where
  "step sb Click = toggle sb"
| "step sb (OsChange dark) = os_change dark sb"

definition run :: "event list \<Rightarrow> browser \<Rightarrow> switch_state \<times> browser" where
  "run evs b0 = foldl step (mount (initial_state, b0)) evs"

definition stored :: "switch_state \<times> browser \<Rightarrow> string option" where
  "stored sb = localStorage (snd sb) STORAGE_KEY"

text \<open>The invariant of the mounted component: the stored value is the literal of the mode.\<close>

definition persisted :: "switch_state \<times> browser \<Rightarrow> bool" where
  "persisted sb = (mounted (fst sb) \<and> stored sb = Some (mode_name (mode (fst sb))))"

text \<open>A browser with empty storage and a light colour scheme, for the examples.\<close>

definition fresh_browser :: browser where
  "fresh_browser =
     \<lparr>localStorage = Map.empty, classList = {}, data_mode = None, prefers_dark = False\<rparr>"

section \<open>Content pipeline (the posts API module and src/lib/markdownToHtml.ts)\<close>

subsection \<open>Errors, values, the file system\<close>

text \<open>
  The module catches nothing, so every exception of a callee is the result of the caller.
  \<^item> \<open>NotFound\<close>: the \<open>ENOENT\<close> error of \<open>fs.readFileSync\<close> / \<open>fs.readdirSync\<close>;
  \<^item> \<open>MalformedFrontmatter\<close>: the exception \<open>matter(...)\<close> throws on a block it cannot parse;
  \<^item> \<open>RenderFailure\<close>: a rejection of the promise of \<open>process(markdown)\<close>.
\<close>

datatype error = NotFound | MalformedFrontmatter | RenderFailure

text \<open>
  Frontmatter values: strings and nested objects of them (\<open>author.name\<close>, \<open>ogImage.url\<close>).
  An object is its list of own properties in insertion order.
\<close>

datatype jsvalue = Str string | Obj "(string \<times> jsvalue) list"

type_synonym jsobject = "(string \<times> jsvalue) list"

definition get_prop :: "jsobject \<Rightarrow> string \<Rightarrow> jsvalue option" where
  "get_prop obj k = map_of obj k"

text \<open>Writing a property: an existing key keeps its place, a new key goes last.\<close>

fun set_prop :: "string \<Rightarrow> jsvalue \<Rightarrow> jsobject \<Rightarrow> jsobject" where
  "set_prop k v [] = [(k, v)]"
| "set_prop k v (p # ps) = (if fst p = k then (k, v) # ps else p # set_prop k v ps)"

record filesystem =
  files :: "string \<rightharpoonup> string"
  directories :: "string \<rightharpoonup> string list"

definition readdirSync :: "filesystem \<Rightarrow> string \<Rightarrow> error + string list" where
  "readdirSync fsys path =
     (case directories fsys path of None \<Rightarrow> Inl NotFound | Some names \<Rightarrow> Inr names)"

definition readFileSync :: "filesystem \<Rightarrow> string \<Rightarrow> error + string" where
  "readFileSync fsys path =
     (case files fsys path of None \<Rightarrow> Inl NotFound | Some text \<Rightarrow> Inr text)"

subsection \<open>The unified processor of markdownToHtml\<close>

text \<open>
  \<^verbatim>\<open>remark().use(rehype).use(rehypeHighlight).use(rehypeStringify).process(markdown)\<close>

  A processor holds a parser, a list of tree transformers and a compiler. \<open>remark()\<close> is a
  new processor at every call (Markdown parser, Markdown compiler, no transformer);
  \<open>use\<close> adds a transformer at the end or replaces the compiler; \<open>process\<close> parses, runs
  the transformers in order and compiles. The plugins are library code: they are
  parameters, and each may read the ambient state \<open>'w\<close> of the process (clock, random
  source, environment) next to its input. A transformer may throw.
\<close>

datatype ('w, 'n) plugin =
  Transformer "'w \<Rightarrow> 'n \<Rightarrow> error + 'n"
| Compiler "'w \<Rightarrow> 'n \<Rightarrow> string"

record ('w, 'n) processor =
  parser :: "'w \<Rightarrow> string \<Rightarrow> 'n"
  transformers :: "('w \<Rightarrow> 'n \<Rightarrow> error + 'n) list"
  compiler :: "'w \<Rightarrow> 'n \<Rightarrow> string"

fun use :: "('w, 'n) plugin \<Rightarrow> ('w, 'n) processor \<Rightarrow> ('w, 'n) processor" where
  "use (Transformer t) p = p\<lparr>transformers := transformers p @ [t]\<rparr>"
| "use (Compiler c) p = p\<lparr>compiler := c\<rparr>"

fun run_transformers :: "('w \<Rightarrow> 'n \<Rightarrow> error + 'n) list \<Rightarrow> 'w \<Rightarrow> 'n \<Rightarrow> error + 'n" where
  "run_transformers [] w tree = Inr tree"
| "run_transformers (t # ts) w tree =
     (case t w tree of Inl e \<Rightarrow> Inl e | Inr tree' \<Rightarrow> run_transformers ts w tree')"

definition process :: "('w, 'n) processor \<Rightarrow> 'w \<Rightarrow> string \<Rightarrow> error + string" where
  "process p w doc =
     (case run_transformers (transformers p) w (parser p w doc) of
        Inl e \<Rightarrow> Inl e
      | Inr tree \<Rightarrow> Inr (compiler p w tree))"

record ('w, 'n) libraries =
  remark :: "('w, 'n) processor"
  rehype :: "('w, 'n) plugin"
  rehypeHighlight :: "('w, 'n) plugin"
  rehypeStringify :: "('w, 'n) plugin"

definition markdownToHtml :: "('w, 'n) libraries \<Rightarrow> 'w \<Rightarrow> string \<Rightarrow> error + string" where
  "markdownToHtml L w markdown =
     process (use (rehypeStringify L) (use (rehypeHighlight L) (use (rehype L) (remark L))))
       w markdown"

subsection \<open>The posts API\<close>

text \<open>
  What the module takes from Node and its packages: \<open>process.cwd()\<close>, \<open>path.join\<close>, the
  file system, \<open>matter\<close> (gray-matter), the unified plugins, and the ambient state.
\<close>

record ('w, 'n) node_env =
  cwd :: string
  join :: "string \<Rightarrow> string \<Rightarrow> string"
  fs :: filesystem
  matter :: "string \<Rightarrow> error + (jsobject \<times> string)"
  unified :: "('w, 'n) libraries"
  ambient :: 'w

definition postsDirectory :: "('w, 'n) node_env \<Rightarrow> string" where
  "postsDirectory env = join env (cwd env) ''_posts''"

definition getPostSlugs :: "('w, 'n) node_env \<Rightarrow> error + string list" where
  "getPostSlugs env = readdirSync (fs env) (postsDirectory env)"

text \<open>
  \<^verbatim>\<open>slug.replace(/\.md$/, "")\<close>: without the \<open>m\<close> flag \<open>$\<close> is the end of the string, so
  only a final \<open>.md\<close> is removed, and only one.
\<close>

definition realSlug :: "string \<Rightarrow> string" where
  "realSlug slug = (if suffix ''.md'' slug then take (length slug - 3) slug else slug)"

definition fullPath :: "('w, 'n) node_env \<Rightarrow> string \<Rightarrow> string" where
  "fullPath env slug = join env (postsDirectory env) (realSlug slug @ ''.md'')"

text \<open>\<^verbatim>\<open>{ ...data, slug: realSlug, content: contentHtml }\<close>\<close>

definition getPostBySlug :: "('w, 'n) node_env \<Rightarrow> string \<Rightarrow> error + jsobject" where
  "getPostBySlug env slug =
     (case readFileSync (fs env) (fullPath env slug) of
        Inl e \<Rightarrow> Inl e
      | Inr fileContents \<Rightarrow>
          (case matter env fileContents of
             Inl e \<Rightarrow> Inl e
           | Inr (data, content) \<Rightarrow>
               (case markdownToHtml (unified env) (ambient env) content of
                  Inl e \<Rightarrow> Inl e
                | Inr contentHtml \<Rightarrow>
                    Inr (set_prop ''content'' (Str contentHtml)
                          (set_prop ''slug'' (Str (realSlug slug)) data)))))"

text \<open>
  \<open>Promise.all\<close>: the list of the results in the order of the promises, or a rejection. The
  model reports the first rejection in list order.
\<close>

fun promise_all :: "(error + 'a) list \<Rightarrow> error + 'a list" where
  "promise_all [] = Inr []"
| "promise_all (Inl e # rs) = Inl e"
| "promise_all (Inr x # rs) =
     (case promise_all rs of Inl e \<Rightarrow> Inl e | Inr xs \<Rightarrow> Inr (x # xs))"

text \<open>
  \<open>post1.date > post2.date\<close>. A missing property is \<open>undefined\<close>, which compares false with
  everything; two strings compare by code units, a prefix before its extensions; an
  object compares as the string \<open>[object Object]\<close>. Strings are byte strings here, with
  the same order as the code units on ASCII text such as ISO-8601 dates.
\<close>

fun to_primitive :: "jsvalue \<Rightarrow> string" where
  "to_primitive (Str s) = s"
| "to_primitive (Obj ps) = ''[object Object]''"

fun js_gt :: "jsvalue option \<Rightarrow> jsvalue option \<Rightarrow> bool" where
  "js_gt (Some a) (Some b) = (to_primitive b < to_primitive a)"
| "js_gt _ _ = False"

definition date :: "jsobject \<Rightarrow> jsvalue option" where
  "date post = get_prop post ''date''"

definition by_date :: "jsobject \<Rightarrow> jsobject \<Rightarrow> int" where
  "by_date post1 post2 = (if js_gt (date post1) (date post2) then - 1 else 1)"

text \<open>
  \<open>Array.prototype.sort(comparefn)\<close> as a stable insertion sort that puts each element
  before the first one it compares below (\<open>comparefn(x, y) < 0\<close>). This is the order of
  the engine whenever "below" is a strict weak order, which \<open>by_date\<close> is on posts that
  all have a string date; on other inputs the comparator is inconsistent, the order of
  the engine is implementation-defined, and this model need not agree with it.
\<close>

fun insert_by :: "('a \<Rightarrow> 'a \<Rightarrow> int) \<Rightarrow> 'a \<Rightarrow> 'a list \<Rightarrow> 'a list" where
  "insert_by comparefn x [] = [x]"
| "insert_by comparefn x (y # ys) =
     (if comparefn x y < 0 then x # y # ys else y # insert_by comparefn x ys)"

definition sort_array :: "('a \<Rightarrow> 'a \<Rightarrow> int) \<Rightarrow> 'a list \<Rightarrow> 'a list" where
  "sort_array comparefn xs = foldl (\<lambda>sorted x. insert_by comparefn x sorted) [] xs"

definition getAllPosts :: "('w, 'n) node_env \<Rightarrow> error + jsobject list" where
  "getAllPosts env =
     (case getPostSlugs env of
        Inl e \<Rightarrow> Inl e
      | Inr slugs \<Rightarrow>
          (case promise_all (map (getPostBySlug env) slugs) of
             Inl e \<Rightarrow> Inl e
           | Inr posts \<Rightarrow> Inr (sort_array by_date posts)))"

text \<open>
  The order of the claim on \<open>getAllPosts\<close>: both dates are strings, and the date of the
  earlier post is greater than or equal to the date of the later one, lexicographically.
\<close>

definition date_ge :: "jsobject \<Rightarrow> jsobject \<Rightarrow> bool" where
  "date_ge earlier later =
     (case (date earlier, date later) of
        (Some (Str d), Some (Str e)) \<Rightarrow> e \<le> d
      | _ \<Rightarrow> False)"

subsection \<open>path.join\<close>

text \<open>
  \<open>path.join\<close> of Node on POSIX, for the environments that fix it: the non-empty arguments
  joined with \<open>/\<close>, then normalised: empty and \<open>.\<close> segments are dropped, a \<open>..\<close> segment
  removes the segment before it (at the root of an absolute path it is dropped, at the
  start of a relative path it is kept), a trailing \<open>/\<close> is kept, and the empty result is
  \<open>.\<close>.
\<close>

fun segments :: "string \<Rightarrow> string list" where
  "segments [] = [[]]"
| "segments (c # cs) =
     (if c = CHR ''/'' then [] # segments cs
      else (case segments cs of [] \<Rightarrow> [[c]] | seg # segs \<Rightarrow> (c # seg) # segs))"

fun join_segments :: "string list \<Rightarrow> string" where
  "join_segments [] = []"
| "join_segments [seg] = seg"
| "join_segments (seg # segs) = seg @ CHR ''/'' # join_segments segs"

fun normalizeString :: "bool \<Rightarrow> string list \<Rightarrow> string list \<Rightarrow> string list" where
  "normalizeString allowAboveRoot [] res = rev res"
| "normalizeString allowAboveRoot (seg # segs) res =
     (if seg = [] \<or> seg = ''.'' then normalizeString allowAboveRoot segs res
      else if seg = ''..'' then
        (if res \<noteq> [] \<and> hd res \<noteq> ''..'' then normalizeString allowAboveRoot segs (tl res)
         else if allowAboveRoot then normalizeString allowAboveRoot segs (seg # res)
         else normalizeString allowAboveRoot segs res)
      else normalizeString allowAboveRoot segs (seg # res))"

definition normalize :: "string \<Rightarrow> string" where
  "normalize path =
     (if path = [] then ''.''
      else (let isAbsolute = (hd path = CHR ''/'');
                trailingSeparator = (last path = CHR ''/'');
                body = join_segments (normalizeString (\<not> isAbsolute) (segments path) [])
            in if body = [] then (if isAbsolute then ''/'' else if trailingSeparator then ''./'' else ''.'')
               else (if isAbsolute then ''/'' else []) @ body
                      @ (if trailingSeparator then ''/'' else [])))"

definition path_join :: "string \<Rightarrow> string \<Rightarrow> string" where
  "path_join a b =
     (if a = [] \<and> b = [] then ''.''
      else normalize (if a = [] then b else if b = [] then a else a @ ''/'' @ b))"

section \<open>The packages behind the pipeline, from the specification\<close>

subsection \<open>Frontmatter parser\<close>

definition newline :: char where
  "newline = CHR 0x0A"

definition delimiter :: string where
  "delimiter = ''---''"

fun split_lines :: "string \<Rightarrow> string list" where
  "split_lines [] = [[]]"
| "split_lines (c # cs) =
     (if c = newline then [] # split_lines cs
      else (case split_lines cs of [] \<Rightarrow> [[c]] | l # ls \<Rightarrow> (c # l) # ls))"

fun join_lines :: "string list \<Rightarrow> string" where
  "join_lines [] = []"
| "join_lines [l] = l"
| "join_lines (l # ls) = l @ newline # join_lines ls"

text \<open>Modelled from the spec: a frontmatter block is present when the text begins with the
  delimiter line (section 4.2, "a leading block bounded by a fixed delimiter line").\<close>

definition opens_frontmatter :: "string \<Rightarrow> bool" where
  "opens_frontmatter raw = (hd (split_lines raw) = delimiter)"

text \<open>Modelled from the spec: the block, the lines between the opening delimiter line and
  the next delimiter line, when there is one (section 4.2).\<close>

definition frontmatter_block :: "string \<Rightarrow> string list option" where
  "frontmatter_block raw =
     (let rest = tl (split_lines raw)
      in if delimiter \<in> set rest then Some (takeWhile (\<lambda>l. l \<noteq> delimiter) rest) else None)"

text \<open>Modelled from the spec: the body, "everything after the closing delimiter ...
  verbatim" (section 4.2).\<close>

definition body_after :: "string \<Rightarrow> string" where
  "body_after raw = join_lines (tl (dropWhile (\<lambda>l. l \<noteq> delimiter) (tl (split_lines raw))))"

text \<open>Modelled from the spec: \<open>matter\<close>, the parser of the gray-matter package, which is not
  under src/. Section 4.2: a leading block bounded by the delimiter line \<open>---\<close> holds the
  key-value frontmatter, and everything after the closing delimiter is the body verbatim;
  with no frontmatter block the result is empty metadata and the full text; a block that
  is present but not parseable (the delimiter opened and never closed, or key-value content
  that does not parse) is \<open>MalformedFrontmatter\<close>. The key-value format itself is the
  parameter \<open>keyvalues\<close>, \<open>None\<close> on content it cannot parse.\<close>

definition matter_spec ::
  "(string list \<Rightarrow> jsobject option) \<Rightarrow> string \<Rightarrow> error + (jsobject \<times> string)" where
  "matter_spec keyvalues raw =
     (if \<not> opens_frontmatter raw then Inr ([], raw)
      else (case frontmatter_block raw of
              None \<Rightarrow> Inl MalformedFrontmatter
            | Some block \<Rightarrow>
                (case keyvalues block of
                   None \<Rightarrow> Inl MalformedFrontmatter
                 | Some data \<Rightarrow> Inr (data, body_after raw))))"

text \<open>Modelled from the spec: the leading block is "present but not parseable as the expected
  structured format" (section 4.2): "delimiter opened but never closed, or unparseable
  key-value content" (section 8).\<close>

definition malformed :: "(string list \<Rightarrow> jsobject option) \<Rightarrow> string \<Rightarrow> bool" where
  "malformed keyvalues raw =
     (opens_frontmatter raw \<and>
      (case frontmatter_block raw of None \<Rightarrow> True | Some block \<Rightarrow> keyvalues block = None))"

text \<open>
  An instance of the key-value format for the examples: one \<open>key: value\<close> per line, the
  value a string, in double quotes or bare.
\<close>

definition unquote :: "string \<Rightarrow> string" where
  "unquote v =
     (if 2 \<le> length v \<and> hd v = CHR 0x22 \<and> last v = CHR 0x22 then butlast (tl v) else v)"

definition field_of_line :: "string \<Rightarrow> (string \<times> jsvalue) option" where
  "field_of_line l =
     (case dropWhile (\<lambda>c. c \<noteq> CHR '':'') l of
        [] \<Rightarrow> None
      | colon # v \<Rightarrow>
          Some (takeWhile (\<lambda>c. c \<noteq> CHR '':'') l, Str (unquote (dropWhile (\<lambda>c. c = CHR '' '') v))))"

fun flat_fields :: "string list \<Rightarrow> jsobject option" where
  "flat_fields [] = Some []"
| "flat_fields (l # ls) =
     (case field_of_line l of
        None \<Rightarrow> None
      | Some p \<Rightarrow> (case flat_fields ls of None \<Rightarrow> None | Some ps \<Rightarrow> Some (p # ps)))"

subsection \<open>Renderer\<close>

text \<open>
  The document tree and the HTML-oriented tree share one node type, as the trees of
  unified do: \<open>Code\<close> is a fenced code block of the document tree with its language hint
  and literal text, \<open>Block\<close> any other leaf block of the document, kept as its source
  text; \<open>Text\<close> and \<open>Element\<close> are the nodes of the HTML tree, and in the document tree
  an \<open>Element\<close> is a block that contains blocks.
\<close>

datatype node =
  Root "node list"
| Code "string option" string
| Block string
| Text string
| Element string "(string \<times> string) list" "node list"

fun escape_text :: "string \<Rightarrow> string" where
  "escape_text [] = []"
| "escape_text (c # cs) =
     (if c = CHR ''&'' then ''&amp;'' @ escape_text cs
      else if c = CHR ''<'' then ''&lt;'' @ escape_text cs
      else c # escape_text cs)"

fun escape_attr :: "string \<Rightarrow> string" where
  "escape_attr [] = []"
| "escape_attr (c # cs) =
     (if c = CHR ''&'' then ''&amp;'' @ escape_attr cs
      else if c = CHR 0x22 then ''&quot;'' @ escape_attr cs
      else c # escape_attr cs)"

definition stringify_attr :: "string \<times> string \<Rightarrow> string" where
  "stringify_attr a = '' '' @ fst a @ ''='' @ [CHR 0x22] @ escape_attr (snd a) @ [CHR 0x22]"

text \<open>Modelled from the spec: "serialize to an HTML string" (section 4.3): start tag with
  attributes, children, end tag, text and attribute values escaped.\<close>

fun stringify :: "node \<Rightarrow> string" where
  "stringify (Root kids) = concat (map stringify kids)"
| "stringify (Text s) = escape_text s"
| "stringify (Element tag attrs kids) =
     ''<'' @ tag @ concat (map stringify_attr attrs) @ ''>''
       @ concat (map stringify kids) @ ''</'' @ tag @ ''>''"
| "stringify (Code hint text) = []"
| "stringify (Block source) = []"

text \<open>Modelled from the spec: the language hint of the fence annotation (section 4.3), kept
  on the \<open>code\<close> element of the HTML tree as the class \<open>language-\<close>hint.\<close>

definition code_attrs :: "string option \<Rightarrow> (string \<times> string) list" where
  "code_attrs hint =
     (case hint of None \<Rightarrow> [] | Some l \<Rightarrow> [(''class'', ''language-'' @ l)])"

definition hint_of :: "(string \<times> string) list \<Rightarrow> string option" where
  "hint_of attrs =
     (case map_of attrs ''class'' of
        None \<Rightarrow> None
      | Some c \<Rightarrow> if prefix ''language-'' c then Some (drop 9 c) else None)"

text \<open>Modelled from the spec: "convert that tree into an HTML-oriented tree" (section 4.3); a
  fenced code block becomes \<open>pre\<close> around \<open>code\<close> around its literal text, wherever it is
  in the document: at the top or inside a block that contains blocks (a quote, a list
  item), which is an \<open>Element\<close> of the document tree.\<close>

fun to_hast :: "(string \<Rightarrow> node) \<Rightarrow> node \<Rightarrow> node" where
  "to_hast block (Root kids) = Root (map (to_hast block) kids)"
| "to_hast block (Code hint text) =
     Element ''pre'' [] [Element ''code'' (code_attrs hint) [Text text]]"
| "to_hast block (Block source) = block source"
| "to_hast block (Element tag attrs kids) = Element tag attrs (map (to_hast block) kids)"
| "to_hast block (Text s) = Text s"

text \<open>Modelled from the spec: the highlighting pass on one code block (section 4.3): with a
  hint, the grammar of that language when there is one, and the block as it is, not
  highlighted, when there is none; without a hint, best-effort detection.\<close>

fun add_class :: "string \<Rightarrow> (string \<times> string) list \<Rightarrow> (string \<times> string) list" where
  "add_class c [] = [(''class'', c)]"
| "add_class c (a # as) =
     (if fst a = ''class'' then (''class'', c @ '' '' @ snd a) # as else a # add_class c as)"

definition highlight_code ::
  "(string \<rightharpoonup> (string \<Rightarrow> node list)) \<Rightarrow> (string \<Rightarrow> node list)
     \<Rightarrow> (string \<times> string) list \<Rightarrow> string \<Rightarrow> node" where
  "highlight_code grammars detect attrs text =
     (case hint_of attrs of
        None \<Rightarrow> Element ''code'' (add_class ''hljs'' attrs) (detect text)
      | Some l \<Rightarrow>
          (case grammars l of
             None \<Rightarrow> Element ''code'' attrs [Text text]
           | Some tokens \<Rightarrow> Element ''code'' (add_class ''hljs'' attrs) (tokens text)))"

text \<open>Modelled from the spec: "apply a syntax-highlighting pass to code blocks" (section
  4.3): every \<open>pre\<close> around a single \<open>code\<close> around text, anywhere in the tree.\<close>

fun highlight ::
  "(string \<rightharpoonup> (string \<Rightarrow> node list)) \<Rightarrow> (string \<Rightarrow> node list) \<Rightarrow> node \<Rightarrow> node" where
  "highlight grammars detect (Root kids) = Root (map (highlight grammars detect) kids)"
| "highlight grammars detect (Element tag attrs kids) =
     (case kids of
        [Element ctag cattrs [Text text]] \<Rightarrow>
          if tag = ''pre'' \<and> ctag = ''code''
          then Element tag attrs [highlight_code grammars detect cattrs text]
          else Element tag attrs (map (highlight grammars detect) kids)
      | _ \<Rightarrow> Element tag attrs (map (highlight grammars detect) kids))"
| "highlight grammars detect n = n"

text \<open>Modelled from the spec: the plugins of the remark, remark-rehype, rehype-highlight and
  rehype-stringify packages, which are not under src/. Section 4.3: parse Markdown into a
  document tree, convert that tree into an HTML-oriented tree, apply a syntax-highlighting
  pass to code blocks (language hint from the fence annotation, best-effort detection
  when absent; an unrecognized hint degrades to unhighlighted \<open><pre><code>\<close> output
  rather than failing), serialize to an HTML string; nothing of the stages depends on
  timestamps, random identifiers or the environment. The Markdown grammar \<open>parse\<close>, the
  Markdown serializer \<open>unparse\<close> of the bare processor, the conversion \<open>block\<close> of the
  blocks other than code, the table \<open>grammars\<close> of recognized languages and the detection
  \<open>detect\<close> are parameters.\<close>

definition spec_libraries ::
  "(string \<Rightarrow> node) \<Rightarrow> (node \<Rightarrow> string) \<Rightarrow> (string \<Rightarrow> node)
     \<Rightarrow> (string \<rightharpoonup> (string \<Rightarrow> node list)) \<Rightarrow> (string \<Rightarrow> node list)
     \<Rightarrow> ('w, node) libraries" where
  "spec_libraries parse unparse block grammars detect =
     \<lparr>remark = \<lparr>parser = (\<lambda>w. parse), transformers = [], compiler = (\<lambda>w. unparse)\<rparr>,
      rehype = Transformer (\<lambda>w tree. Inr (to_hast block tree)),
      rehypeHighlight = Transformer (\<lambda>w tree. Inr (highlight grammars detect tree)),
      rehypeStringify = Compiler (\<lambda>w. stringify)\<rparr>"


section \<open>Example inputs\<close>

text \<open>
  An instance of the Markdown grammar for the examples: the document line by line, a
  line starting with three backquotes opens a fenced code block with the rest of the line
  as its language hint, the next line of exactly three backquotes closes it, and every
  other line is a block of its own, converted to a paragraph.
\<close>

definition fence :: string where
  "fence = [CHR 0x60, CHR 0x60, CHR 0x60]"

definition unlines :: "string list \<Rightarrow> string" where
  "unlines ls = concat (map (\<lambda>l. l @ [newline]) ls)"

fun scan_blocks :: "(string option \<times> string list) option \<Rightarrow> string list \<Rightarrow> node list" where
  "scan_blocks None [] = []"
| "scan_blocks (Some (hint, code)) [] = [Code hint (unlines code)]"
| "scan_blocks None (l # ls) =
     (if prefix fence l
      then scan_blocks (Some (if drop 3 l = [] then None else Some (drop 3 l), [])) ls
      else Block l # scan_blocks None ls)"
| "scan_blocks (Some (hint, code)) (l # ls) =
     (if l = fence then Code hint (unlines code) # scan_blocks None ls
      else scan_blocks (Some (hint, code @ [l])) ls)"

definition parse_blocks :: "string \<Rightarrow> node" where
  "parse_blocks markdown = Root (scan_blocks None (split_lines markdown))"

definition to_paragraph :: "string \<Rightarrow> node" where
  "to_paragraph source = Element ''p'' [] [Text source]"

definition plain_libraries :: "('w, node) libraries" where
  "plain_libraries =
     spec_libraries parse_blocks (\<lambda>tree. []) to_paragraph Map.empty (\<lambda>text. [Text text])"

text \<open>
  The example of the specification: \<open>example.md\<close> dated 2021 and \<open>other.md\<close> dated 2022 in
  the content root \<open>/blog/_posts\<close>.
\<close>

definition example_md :: string where
  \<open>example_md = join_lines
     [''---'', ''title: "A"'', ''date: "2021-01-01T00:00:00.000Z"'', ''---'', ''Hello'']\<close>

definition other_md :: string where
  \<open>other_md = join_lines
     [''---'', ''title: "B"'', ''date: "2022-01-01T00:00:00.000Z"'', ''---'', ''World'']\<close>

definition blog_env :: "(unit, node) node_env" where
  "blog_env =
     \<lparr>cwd = ''/blog'',
      join = (\<lambda>dir name. dir @ ''/'' @ name),
      fs = \<lparr>files = map_of [(''/blog/_posts/example.md'', example_md),
                             (''/blog/_posts/other.md'', other_md)],
            directories = map_of [(''/blog/_posts'', [''example.md'', ''other.md''])]\<rparr>,
      matter = matter_spec flat_fields,
      unified = plain_libraries,
      ambient = ()\<rparr>"

text \<open>
  A content root with a file without frontmatter, a file whose frontmatter is opened and
  never closed, and a file whose frontmatter is not in the key-value format.
\<close>

definition drafts_env :: "(unit, node) node_env" where
  "drafts_env =
     blog_env\<lparr>fs :=
       \<lparr>files = map_of [(''/blog/_posts/plain.md'', ''Just text''),
                        (''/blog/_posts/open.md'', join_lines [''---'', ''title: A'']),
                        (''/blog/_posts/bad.md'',
                           join_lines [''---'', ''no colon here'', ''---'', ''body''])],
        directories = map_of [(''/blog/_posts'', [''bad.md'', ''open.md'', ''plain.md''])]\<rparr>\<rparr>"


text \<open>
  A site as the repository has it: \<open>README.md\<close> beside the content root \<open>_posts\<close>, one post
  in the content root, and \<open>path.join\<close> as Node has it.
\<close>

definition site_env :: "(unit, node) node_env" where
  "site_env =
     \<lparr>cwd = ''/blog'',
      join = path_join,
      fs = \<lparr>files = map_of [(''/blog/README.md'', ''Unfodl Blog''),
                             (''/blog/_posts/example.md'', example_md)],
            directories = map_of [(''/blog'', [''README.md'', ''_posts'']),
                                  (''/blog/_posts'', [''example.md''])]\<rparr>,
      matter = matter_spec flat_fields,
      unified = plain_libraries,
      ambient = ()\<rparr>"

section \<open>Well-formed HTML text\<close>

text \<open>
  What it is for a string to be well-formed HTML, read from the string alone: a start tag
  is \<open><name\<close>, attributes \<open> name="value"\<close> with no double quote inside the value, and
  \<open>>\<close>; an end tag is \<open></name>\<close>; between tags a \<open><\<close> never stands for itself and an
  \<open>&\<close> starts one of the entities \<open>&amp;\<close>, \<open>&lt;\<close>, \<open>&gt;\<close>, \<open>&quot;\<close>; every start tag is
  closed by the end tag of the same name, properly nested.
\<close>

definition name_char :: "char \<Rightarrow> bool" where
  "name_char c =
     (c \<in> set ''abcdefghijklmnopqrstuvwxyzABCDEFGHIJKLMNOPQRSTUVWXYZ0123456789-'')"

datatype token = Open string | Close string | Chr

text \<open>
  The tokens of a string, \<open>None\<close> when it is not made of tags and character data as above.
  The flag says that the reader is inside a start tag, after its name or after an
  attribute, where only another attribute or the closing \<open>>\<close> may come.
\<close>

function tokenize :: "bool \<Rightarrow> string \<Rightarrow> token list option" where
  "tokenize True [] = None"
| "tokenize True (c # cs) =
     (if c = CHR ''>'' then tokenize False cs
      else if c = CHR '' '' \<and> takeWhile name_char cs \<noteq> [] then
        (case dropWhile name_char cs of
           e # q # v \<Rightarrow>
             if e = CHR ''='' \<and> q = CHR 0x22 then
               (case dropWhile (\<lambda>x. x \<noteq> CHR 0x22) v of
                  [] \<Rightarrow> None
                | q2 # rest \<Rightarrow> tokenize True rest)
             else None
         | _ \<Rightarrow> None)
      else None)"
| "tokenize False [] = Some []"
| "tokenize False (c # cs) =
     (if c = CHR ''<'' then
        (if cs \<noteq> [] \<and> hd cs = CHR ''/'' then
           (case dropWhile name_char (tl cs) of
              [] \<Rightarrow> None
            | g # rest \<Rightarrow>
                if takeWhile name_char (tl cs) \<noteq> [] \<and> g = CHR ''>''
                then map_option (Cons (Close (takeWhile name_char (tl cs)))) (tokenize False rest)
                else None)
         else if takeWhile name_char cs = [] then None
         else map_option (Cons (Open (takeWhile name_char cs)))
                (tokenize True (dropWhile name_char cs)))
      else if c = CHR ''&'' then
        (if prefix ''amp;'' cs then map_option (Cons Chr) (tokenize False (drop 4 cs))
         else if prefix ''lt;'' cs then map_option (Cons Chr) (tokenize False (drop 3 cs))
         else if prefix ''gt;'' cs then map_option (Cons Chr) (tokenize False (drop 3 cs))
         else if prefix ''quot;'' cs then map_option (Cons Chr) (tokenize False (drop 5 cs))
         else None)
      else map_option (Cons Chr) (tokenize False cs))"
  by pat_completeness auto
termination
proof (relation "measure (\<lambda>(inside, s). length s)", goal_cases)
  case 1
  show ?case by simp
next
  case (2 c cs)
  show ?case by simp
next
  case (3 c cs e ys q v q2 rest)
  have a: "length (dropWhile name_char cs) \<le> length cs"
    by (rule length_dropWhile_le)
  have b: "length (dropWhile (\<lambda>x. x \<noteq> CHR 0x22) v) \<le> length v"
    by (rule length_dropWhile_le)
  from 3 a b show ?case by simp
next
  case (4 c cs g rest)
  have "length (dropWhile name_char (tl cs)) \<le> length (tl cs)"
    by (rule length_dropWhile_le)
  with 4 show ?case by simp
next
  case (5 c cs)
  have "length (dropWhile name_char cs) \<le> length cs"
    by (rule length_dropWhile_le)
  then show ?case by simp
qed simp_all

fun balanced :: "string list \<Rightarrow> token list \<Rightarrow> bool" where
  "balanced opened [] = (opened = [])"
| "balanced opened (Open name # ts) = balanced (name # opened) ts"
| "balanced opened (Close name # ts) =
     (case opened of [] \<Rightarrow> False | inner # outer \<Rightarrow> inner = name \<and> balanced outer ts)"
| "balanced opened (Chr # ts) = balanced opened ts"

definition well_formed :: "string \<Rightarrow> bool" where
  "well_formed html = (case tokenize False html of None \<Rightarrow> False | Some ts \<Rightarrow> balanced [] ts)"








section \<open>Theme switcher: properties\<close>

lemma handleModeSwitch_mode:
  "mode (handleModeSwitch s) =
     (case mode s of System \<Rightarrow> Dark | Dark \<Rightarrow> Light | Light \<Rightarrow> System)"
  by (cases "mode s") (simp_all add: handleModeSwitch_def modes_def)

lemma handleModeSwitch_mounted: "mounted (handleModeSwitch s) = mounted s"
  by (simp add: handleModeSwitch_def)

text \<open>
  C8. The controller starts in \<open>system\<close>; the toggle handler advances
  \<open>system \<rightarrow> dark \<rightarrow> light \<rightarrow> system\<close>; three toggles from any state give that state back.
\<close>

theorem toggle_cycle:
  "mode initial_state = System
   \<and> mode (handleModeSwitch (s\<lparr>mode := System\<rparr>)) = Dark
   \<and> mode (handleModeSwitch (s\<lparr>mode := Dark\<rparr>)) = Light
   \<and> mode (handleModeSwitch (s\<lparr>mode := Light\<rparr>)) = System
   \<and> handleModeSwitch (handleModeSwitch (handleModeSwitch s)) = s"
proof -
  have three: "handleModeSwitch (handleModeSwitch (handleModeSwitch s)) = s"
  proof -
    have m: "mode (handleModeSwitch (handleModeSwitch (handleModeSwitch s))) = mode s"
      by (cases "mode s") (simp_all add: handleModeSwitch_mode)
    have k: "mounted (handleModeSwitch (handleModeSwitch (handleModeSwitch s))) = mounted s"
      by (simp add: handleModeSwitch_mounted)
    have r: "switch_state.more (handleModeSwitch (handleModeSwitch (handleModeSwitch s)))
               = switch_state.more s"
      by (simp add: handleModeSwitch_def)
    show ?thesis using m k r by (rule switch_state.equality)
  qed
  show ?thesis
    using three by (simp add: handleModeSwitch_mode initial_state_def)
qed

lemma applyTheme_stored: "localStorage (applyTheme m b) STORAGE_KEY = Some (mode_name m)"
  by (simp add: applyTheme_def Let_def)

lemma mount_effect_mounted: "mounted (mount_effect b s)"
  by (simp add: mount_effect_def split: option.splits)

lemma persisted_mount: "persisted (mount (initial_state, b0))"
  by (simp add: persisted_def mount_def Let_def theme_effect_def stored_def
      mount_effect_mounted applyTheme_stored)

lemma persisted_toggle: "persisted sb \<Longrightarrow> persisted (toggle sb)"
  by (cases sb)
    (simp add: persisted_def toggle_def click_def commit_def Let_def theme_effect_def
      stored_def handleModeSwitch_mounted applyTheme_stored)

lemma persisted_os_change: "persisted sb \<Longrightarrow> persisted (os_change dark sb)"
  by (cases sb)
    (simp add: persisted_def os_change_def Let_def stored_def applyTheme_stored)

lemma persisted_step: "persisted sb \<Longrightarrow> persisted (step sb ev)"
  by (cases ev) (simp_all add: persisted_toggle persisted_os_change)

lemma persisted_foldl: "persisted sb \<Longrightarrow> persisted (foldl step sb evs)"
  by (induction evs arbitrary: sb) (simp_all add: persisted_step)

lemma persisted_run: "persisted (run evs b0)"
  by (simp add: run_def persisted_foldl persisted_mount)

lemma toggle_mode:
  "persisted sb \<Longrightarrow> mode (fst (toggle sb)) = mode (handleModeSwitch (fst sb))"
  by (cases sb) (simp add: persisted_def toggle_def click_def commit_def Let_def)

lemma click_stored: "stored (click sb) = stored sb"
  by (cases sb) (simp add: click_def stored_def Let_def)

lemma run_fresh: "run [] fresh_browser =
  (\<lparr>mode = System, mounted = True\<rparr>,
   \<lparr>localStorage = [STORAGE_KEY \<mapsto> ''system''], classList = {},
    data_mode = Some ''system'', prefers_dark = False\<rparr>)"
  by (simp add: run_def mount_def mount_effect_def saved_mode_def theme_effect_def
      applyTheme_def initial_state_def fresh_browser_def Let_def)

text \<open>
  C9, as stated: the toggle operation has persisted the new state when it returns. The
  operation that returns is the click handler, and it only calls \<open>setMode\<close>: in the mounted
  component with fresh storage, when the handler has returned the mode is \<open>dark\<close> and the
  stored value is still \<open>system\<close>; the effect that runs afterwards stores \<open>dark\<close>.
\<close>

theorem handler_returns_unpersisted_counterexample:
  "mode (fst (click (run [] fresh_browser))) = Dark
   \<and> stored (click (run [] fresh_browser)) = Some ''system''
   \<and> stored (commit (click (run [] fresh_browser))) = Some ''dark''"
  unfolding run_fresh
  by (simp add: click_def commit_def handleModeSwitch_mode theme_effect_def applyTheme_def
      stored_def Let_def handleModeSwitch_mounted)

text \<open>
  C9, amended: in every state the mounted component reaches (any starting browser
  storage, any sequence of clicks and OS colour-scheme changes), the click handler itself
  leaves the storage as it is, and the effect React runs after it stores the new mode
  under \<open>STORAGE_KEY\<close>: \<open>dark\<close> after \<open>system\<close>, \<open>light\<close> after \<open>dark\<close>, \<open>system\<close> after
  \<open>light\<close>. Once the component has mounted, the stored value is the literal of the
  current mode, one of \<open>system\<close>, \<open>dark\<close>, \<open>light\<close>, before and after a toggle.
\<close>

theorem toggle_persists_mode:
  "stored (click (run evs b0)) = stored (run evs b0)
   \<and> mode (fst (toggle (run evs b0))) =
       (case mode (fst (run evs b0)) of System \<Rightarrow> Dark | Dark \<Rightarrow> Light | Light \<Rightarrow> System)
   \<and> stored (toggle (run evs b0)) =
       Some (case mode (fst (run evs b0)) of
               System \<Rightarrow> ''dark'' | Dark \<Rightarrow> ''light'' | Light \<Rightarrow> ''system'')
   \<and> stored (run evs b0) =
       Some (case mode (fst (run evs b0)) of
               System \<Rightarrow> ''system'' | Dark \<Rightarrow> ''dark'' | Light \<Rightarrow> ''light'')
   \<and> stored (toggle (run evs b0)) \<in> {Some ''system'', Some ''dark'', Some ''light''}
   \<and> stored (run evs b0) \<in> {Some ''system'', Some ''dark'', Some ''light''}"
proof -
  have r: "persisted (run evs b0)" by (rule persisted_run)
  then have t: "persisted (toggle (run evs b0))" by (rule persisted_toggle)
  have n: "mode (fst (toggle (run evs b0))) =
             (case mode (fst (run evs b0)) of System \<Rightarrow> Dark | Dark \<Rightarrow> Light | Light \<Rightarrow> System)"
    using toggle_mode [OF r] by (simp add: handleModeSwitch_mode)
  have before: "stored (run evs b0) =
      Some (case mode (fst (run evs b0)) of
              System \<Rightarrow> ''system'' | Dark \<Rightarrow> ''dark'' | Light \<Rightarrow> ''light'')"
    using r by (cases "mode (fst (run evs b0))") (simp_all add: persisted_def)
  have after: "stored (toggle (run evs b0)) =
      Some (case mode (fst (run evs b0)) of
              System \<Rightarrow> ''dark'' | Dark \<Rightarrow> ''light'' | Light \<Rightarrow> ''system'')"
    using t n by (cases "mode (fst (run evs b0))") (simp_all add: persisted_def)
  have m1: "stored (toggle (run evs b0)) \<in> {Some ''system'', Some ''dark'', Some ''light''}"
    unfolding after by (cases "mode (fst (run evs b0))") simp_all
  have m2: "stored (run evs b0) \<in> {Some ''system'', Some ''dark'', Some ''light''}"
    unfolding before by (cases "mode (fst (run evs b0))") simp_all
  from click_stored n before after m1 m2 show ?thesis by blast
qed

section \<open>Content pipeline: properties\<close>

subsection \<open>Slugs and lookup\<close>

lemma realSlug_md: "realSlug (s @ ''.md'') = s"
  by (simp add: realSlug_def suffix_def)

lemma realSlug_other: "\<not> suffix ''.md'' s \<Longrightarrow> realSlug s = s"
  by (simp add: realSlug_def)

lemma get_prop_set_prop:
  "get_prop (set_prop k v obj) k' = (if k' = k then Some v else get_prop obj k')"
  by (induction obj) (auto simp: get_prop_def)

lemma readFileSync_Some: "files fsys path = Some text \<Longrightarrow> readFileSync fsys path = Inr text"
  by (simp add: readFileSync_def)

lemma readFileSync_None: "files fsys path = None \<Longrightarrow> readFileSync fsys path = Inl NotFound"
  by (simp add: readFileSync_def)

subsection \<open>The example content root\<close>

lemma blog_fullPath: "fullPath blog_env slug = ''/blog/_posts/'' @ realSlug slug @ ''.md''"
  by (simp add: fullPath_def postsDirectory_def blog_env_def)

lemma blog_matter_example:
  "matter blog_env example_md =
     Inr ([(''title'', Str ''A''), (''date'', Str ''2021-01-01T00:00:00.000Z'')], ''Hello'')"
  by (simp add: blog_env_def example_md_def matter_spec_def opens_frontmatter_def
      frontmatter_block_def body_after_def delimiter_def newline_def field_of_line_def
      unquote_def)

lemma blog_matter_other:
  "matter blog_env other_md =
     Inr ([(''title'', Str ''B''), (''date'', Str ''2022-01-01T00:00:00.000Z'')], ''World'')"
  by (simp add: blog_env_def other_md_def matter_spec_def opens_frontmatter_def
      frontmatter_block_def body_after_def delimiter_def newline_def field_of_line_def
      unquote_def)

lemma blog_render_Hello:
  "markdownToHtml (unified blog_env) w ''Hello'' = Inr ''<p>Hello</p>''"
  by (simp add: blog_env_def plain_libraries_def spec_libraries_def markdownToHtml_def
      process_def parse_blocks_def fence_def to_paragraph_def newline_def)

lemma blog_render_World:
  "markdownToHtml (unified blog_env) w ''World'' = Inr ''<p>World</p>''"
  by (simp add: blog_env_def plain_libraries_def spec_libraries_def markdownToHtml_def
      process_def parse_blocks_def fence_def to_paragraph_def newline_def)

lemma blog_file_example: "readFileSync (fs blog_env) ''/blog/_posts/example.md'' = Inr example_md"
  by (simp add: readFileSync_def blog_env_def)

lemma blog_file_other: "readFileSync (fs blog_env) ''/blog/_posts/other.md'' = Inr other_md"
  by (simp add: readFileSync_def blog_env_def)

lemma blog_post_example:
  "getPostBySlug blog_env ''example.md'' =
     Inr [(''title'', Str ''A''), (''date'', Str ''2021-01-01T00:00:00.000Z''),
          (''slug'', Str ''example''), (''content'', Str ''<p>Hello</p>'')]"
proof -
  have r: "realSlug ''example.md'' = ''example''"
    using realSlug_md [of "''example''"] by simp
  show ?thesis
    unfolding getPostBySlug_def blog_fullPath r
    by (simp add: blog_file_example blog_matter_example blog_render_Hello)
qed

lemma blog_post_other:
  "getPostBySlug blog_env ''other.md'' =
     Inr [(''title'', Str ''B''), (''date'', Str ''2022-01-01T00:00:00.000Z''),
          (''slug'', Str ''other''), (''content'', Str ''<p>World</p>'')]"
proof -
  have r: "realSlug ''other.md'' = ''other''"
    using realSlug_md [of "''other''"] by simp
  show ?thesis
    unfolding getPostBySlug_def blog_fullPath r
    by (simp add: blog_file_other blog_matter_other blog_render_World)
qed

subsection \<open>The claims on slugs and lookup\<close>

text \<open>
  C1. A source file of the content root is named \<open>slug.md\<close>. When the file is there, its
  frontmatter parses and its body renders, \<open>getPostBySlug\<close> applied to the filename
  returns a post, and the \<open>slug\<close> of that post is the filename without the extension.
\<close>

theorem getPostBySlug_slug:
  assumes "files (fs env) (join env (postsDirectory env) (s @ ''.md'')) = Some fileContents"
    and "matter env fileContents = Inr (data, content)"
    and "markdownToHtml (unified env) (ambient env) content = Inr contentHtml"
  shows "\<exists>post. getPostBySlug env (s @ ''.md'') = Inr post
           \<and> get_prop post ''slug'' = Some (Str s)"
proof -
  have p: "fullPath env (s @ ''.md'') = join env (postsDirectory env) (s @ ''.md'')"
    by (simp add: fullPath_def realSlug_md)
  have r: "readFileSync (fs env) (fullPath env (s @ ''.md'')) = Inr fileContents"
    using assms(1) p by (simp add: readFileSync_Some)
  have g: "getPostBySlug env (s @ ''.md'') =
             Inr (set_prop ''content'' (Str contentHtml) (set_prop ''slug'' (Str s) data))"
    using r assms(2,3) by (simp add: getPostBySlug_def realSlug_md)
  have "get_prop (set_prop ''content'' (Str contentHtml) (set_prop ''slug'' (Str s) data))
          ''slug'' = Some (Str s)"
    by (simp add: get_prop_set_prop)
  with g show ?thesis by simp
qed

theorem getPostBySlug_slug_witness:
  "\<exists>post. getPostBySlug blog_env ''example.md'' = Inr post
         \<and> get_prop post ''slug'' = Some (Str ''example'')"
proof -
  have f: "files (fs blog_env) (join blog_env (postsDirectory blog_env) (''example'' @ ''.md''))
             = Some example_md"
    by (simp add: blog_env_def postsDirectory_def)
  show ?thesis
    using getPostBySlug_slug [OF f blog_matter_example blog_render_Hello] by simp
qed

lemma site_README_path: "fullPath site_env ''../README'' = ''/blog/README.md''"
  by (simp add: fullPath_def postsDirectory_def site_env_def realSlug_def suffix_def
      path_join_def normalize_def Let_def)

lemma site_slugs: "getPostSlugs site_env = Inr [''example.md'']"
  by (simp add: getPostSlugs_def readdirSync_def postsDirectory_def site_env_def
      path_join_def normalize_def Let_def)

text \<open>
  C6, as stated: a slug that does not correspond to an existing source file under the
  content root fails with \<open>NotFound\<close>. The path of the slug is not confined to the content
  root: \<open>../README\<close> names no file of \<open>_posts\<close>, whose only entry is \<open>example.md\<close>, but
  \<open>path.join\<close> resolves \<open>_posts/../README.md\<close> to the \<open>README.md\<close> beside the content
  root, and \<open>getPostBySlug\<close> returns a post made of it.
\<close>

theorem getPostBySlug_outside_root_counterexample:
  "getPostSlugs site_env = Inr [''example.md'']
   \<and> realSlug ''../README'' @ ''.md'' \<notin> set [''example.md'']
   \<and> getPostBySlug site_env ''../README'' =
       Inr [(''slug'', Str ''../README''), (''content'', Str ''<p>Unfodl Blog</p>'')]"
proof -
  have r: "realSlug ''../README'' = ''../README''"
    by (simp add: realSlug_def suffix_def)
  have f: "readFileSync (fs site_env) ''/blog/README.md'' = Inr ''Unfodl Blog''"
    by (simp add: readFileSync_def site_env_def)
  have m: "matter site_env ''Unfodl Blog'' = Inr ([], ''Unfodl Blog'')"
    by (simp add: site_env_def matter_spec_def opens_frontmatter_def delimiter_def newline_def)
  have h: "markdownToHtml (unified site_env) w ''Unfodl Blog'' = Inr ''<p>Unfodl Blog</p>''" for w
    by (simp add: site_env_def plain_libraries_def spec_libraries_def markdownToHtml_def
        process_def parse_blocks_def fence_def to_paragraph_def newline_def)
  have g: "getPostBySlug site_env ''../README'' =
             Inr [(''slug'', Str ''../README''), (''content'', Str ''<p>Unfodl Blog</p>'')]"
    unfolding getPostBySlug_def site_README_path r
    by (simp add: f m h)
  show ?thesis
    using site_slugs g by (simp add: r)
qed

text \<open>
  C6, amended: for every slug for which the path the code resolves,
  \<open>join(postsDirectory, realSlug + ".md")\<close>, names no existing file, \<open>getPostBySlug\<close> fails
  with \<open>NotFound\<close>: the \<open>ENOENT\<close> of \<open>readFileSync\<close> is not caught.
\<close>

theorem getPostBySlug_not_found:
  assumes "files (fs env) (fullPath env slug) = None"
  shows "getPostBySlug env slug = Inl NotFound"
  using assms by (simp add: getPostBySlug_def readFileSync_None)

theorem getPostBySlug_not_found_witness:
  "files (fs site_env) (fullPath site_env ''../LICENSE'') = None
   \<and> getPostBySlug site_env ''../LICENSE'' = Inl NotFound
   \<and> files (fs blog_env) (fullPath blog_env ''missing'') = None
   \<and> getPostBySlug blog_env ''missing'' = Inl NotFound"
proof -
  have f: "files (fs blog_env) (fullPath blog_env ''missing'') = None"
    by (simp add: blog_env_def fullPath_def postsDirectory_def realSlug_def suffix_def)
  have s: "files (fs site_env) (fullPath site_env ''../LICENSE'') = None"
    by (simp add: fullPath_def postsDirectory_def site_env_def realSlug_def suffix_def
        path_join_def normalize_def Let_def)
  show ?thesis
    using f s getPostBySlug_not_found [OF f] getPostBySlug_not_found [OF s] by simp
qed

text \<open>
  C10, as stated: \<open>getPostBySlug(s)\<close> and \<open>getPostBySlug(s + ".md")\<close> agree for every \<open>s\<close>.
  It fails when \<open>s\<close> ends in \<open>.md\<close> itself: only one extension is removed, so
  \<open>example.md\<close> reads the file \<open>example.md\<close> and \<open>example.md.md\<close> looks for a file
  \<open>example.md.md\<close>.
\<close>

theorem getPostBySlug_md_md_counterexample:
  "getPostBySlug blog_env ''example.md'' \<noteq> getPostBySlug blog_env (''example.md'' @ ''.md'')"
proof -
  have r: "realSlug (''example.md'' @ ''.md'') = ''example.md''"
    by (rule realSlug_md)
  have a: "getPostBySlug blog_env (''example.md'' @ ''.md'') = Inl NotFound"
    unfolding getPostBySlug_def blog_fullPath r
    by (simp add: readFileSync_def blog_env_def)
  show ?thesis
    unfolding a blog_post_example by simp
qed

text \<open>
  C10, amended: for every \<open>s\<close> that does not itself end in \<open>.md\<close>, \<open>getPostBySlug(s)\<close> and
  \<open>getPostBySlug(s + ".md")\<close> read the same file and return the same result.
\<close>

theorem getPostBySlug_extension_insensitive:
  assumes "\<not> suffix ''.md'' s"
  shows "fullPath env (s @ ''.md'') = fullPath env s
         \<and> getPostBySlug env (s @ ''.md'') = getPostBySlug env s"
proof -
  have r: "realSlug (s @ ''.md'') = realSlug s"
    using assms by (simp add: realSlug_md realSlug_other)
  show ?thesis
    unfolding getPostBySlug_def fullPath_def r by simp
qed

theorem getPostBySlug_extension_insensitive_witness:
  "\<not> suffix ''.md'' ''example''
   \<and> fullPath blog_env (''example'' @ ''.md'') = fullPath blog_env ''example''
   \<and> getPostBySlug blog_env (''example'' @ ''.md'') = getPostBySlug blog_env ''example''"
proof -
  have n: "\<not> suffix ''.md'' ''example''"
    by (simp add: suffix_def)
  show ?thesis
    using n getPostBySlug_extension_insensitive [OF n, of blog_env] by simp
qed

subsection \<open>Ordering of the collection\<close>

lemma mset_insert_by: "mset (insert_by c x ys) = add_mset x (mset ys)"
  by (induction ys) simp_all

lemma set_insert_by: "set (insert_by c x ys) = insert x (set ys)"
  by (induction ys) auto

lemma mset_foldl_insert_by:
  "mset (foldl (\<lambda>sorted x. insert_by c x sorted) acc xs) = mset acc + mset xs"
  by (induction xs arbitrary: acc) (simp_all add: mset_insert_by)

lemma mset_sort_array: "mset (sort_array c xs) = mset xs"
  by (simp add: sort_array_def mset_foldl_insert_by)

text \<open>
  Insertion keeps the list ordered for any comparator whose "below" is asymmetric and
  transitive in the form used here; the comparator never has to return 0.
\<close>

lemma sorted_insert_by:
  assumes asym: "\<And>a b. c a b < 0 \<Longrightarrow> \<not> c b a < 0"
    and trans: "\<And>a b z. c a b < 0 \<Longrightarrow> c z a < 0 \<Longrightarrow> c z b < 0"
    and "sorted_wrt (\<lambda>p q. \<not> c q p < 0) ys"
  shows "sorted_wrt (\<lambda>p q. \<not> c q p < 0) (insert_by c x ys)"
  using assms(3)
proof (induction ys)
  case Nil
  then show ?case by simp
next
  case (Cons y ys)
  show ?case
  proof (cases "c x y < 0")
    case True
    have "\<not> c z x < 0" if "z \<in> set (y # ys)" for z
    proof (cases "z = y")
      case True
      with \<open>c x y < 0\<close> asym show ?thesis by blast
    next
      case False
      with that Cons.prems have "\<not> c z y < 0" by simp
      then show ?thesis using trans [of z x y] asym \<open>c x y < 0\<close> trans [of x y z]
        by blast
    qed
    with True Cons.prems show ?thesis by simp
  next
    case False
    with Cons show ?thesis by (auto simp: set_insert_by)
  qed
qed

lemma sorted_foldl_insert_by:
  assumes asym: "\<And>a b. c a b < 0 \<Longrightarrow> \<not> c b a < 0"
    and trans: "\<And>a b z. c a b < 0 \<Longrightarrow> c z a < 0 \<Longrightarrow> c z b < 0"
  shows "sorted_wrt (\<lambda>p q. \<not> c q p < 0) acc
         \<Longrightarrow> sorted_wrt (\<lambda>p q. \<not> c q p < 0) (foldl (\<lambda>sorted x. insert_by c x sorted) acc xs)"
proof (induction xs arbitrary: acc)
  case Nil
  then show ?case by simp
next
  case (Cons x xs)
  have "sorted_wrt (\<lambda>p q. \<not> c q p < 0) (insert_by c x acc)"
    using asym trans Cons.prems by (rule sorted_insert_by)
  then show ?case using Cons.IH by simp
qed

lemma by_date_below: "by_date p q < 0 \<longleftrightarrow> js_gt (date p) (date q)"
  by (simp add: by_date_def)

lemma js_gt_asym: "js_gt a b \<Longrightarrow> \<not> js_gt b a"
  by (cases a; cases b) auto

lemma js_gt_trans: "js_gt a b \<Longrightarrow> js_gt z a \<Longrightarrow> js_gt z b"
  by (cases a; cases b; cases z) auto

lemma sorted_sort_array_by_date:
  "sorted_wrt (\<lambda>p q. \<not> js_gt (date q) (date p)) (sort_array by_date posts)"
proof -
  have "sorted_wrt (\<lambda>p q. \<not> by_date q p < 0)
          (foldl (\<lambda>sorted x. insert_by by_date x sorted) [] posts)"
  proof (rule sorted_foldl_insert_by)
    show "\<And>a b. by_date a b < 0 \<Longrightarrow> \<not> by_date b a < 0"
      using js_gt_asym by (simp add: by_date_below)
    show "\<And>a b z. by_date a b < 0 \<Longrightarrow> by_date z a < 0 \<Longrightarrow> by_date z b < 0"
      using js_gt_trans by (simp add: by_date_below)
    show "sorted_wrt (\<lambda>p q. \<not> by_date q p < 0) []" by simp
  qed
  then show ?thesis by (simp add: sort_array_def by_date_below)
qed

lemma date_ge_if_not_gt:
  assumes "date p = Some (Str d)" and "date q = Some (Str e)"
    and "\<not> js_gt (date q) (date p)"
  shows "date_ge p q"
  using assms by (simp add: date_ge_def not_less)

lemma getAllPosts_Inr:
  assumes "getAllPosts env = Inr posts"
  shows "\<exists>slugs fetched. getPostSlugs env = Inr slugs
           \<and> promise_all (map (getPostBySlug env) slugs) = Inr fetched
           \<and> posts = sort_array by_date fetched"
  using assms by (auto simp: getAllPosts_def split: sum.splits)

text \<open>
  C2. When \<open>getAllPosts\<close> returns and every post has a string \<open>date\<close>, the result is the
  fetched posts rearranged so that each post's date is greater than or equal to the date
  of every later post, adjacent ones in particular. The witness is the example of the
  specification: the post of 2022 comes before the post of 2021.
\<close>

theorem getAllPosts_sorted:
  assumes "getAllPosts env = Inr posts"
    and "\<forall>p \<in> set posts. \<exists>d. date p = Some (Str d)"
  shows "sorted_wrt date_ge posts
         \<and> (\<forall>i. Suc i < length posts \<longrightarrow> date_ge (posts ! i) (posts ! Suc i))
         \<and> (\<exists>slugs fetched. getPostSlugs env = Inr slugs
               \<and> promise_all (map (getPostBySlug env) slugs) = Inr fetched
               \<and> mset posts = mset fetched)"
proof -
  obtain slugs fetched where s: "getPostSlugs env = Inr slugs"
    and f: "promise_all (map (getPostBySlug env) slugs) = Inr fetched"
    and p: "posts = sort_array by_date fetched"
    using getAllPosts_Inr [OF assms(1)] by blast
  have "sorted_wrt (\<lambda>p q. \<not> js_gt (date q) (date p)) posts"
    unfolding p by (rule sorted_sort_array_by_date)
  then have sorted: "sorted_wrt date_ge posts"
  proof (rule sorted_wrt_mono_rel [rotated])
    fix x y
    assume "x \<in> set posts" "y \<in> set posts" "\<not> js_gt (date y) (date x)"
    then show "date_ge x y"
      using assms(2) date_ge_if_not_gt by blast
  qed
  have adjacent: "\<forall>i. Suc i < length posts \<longrightarrow> date_ge (posts ! i) (posts ! Suc i)"
    using sorted by (simp add: sorted_wrt_iff_nth_less)
  have "mset posts = mset fetched"
    unfolding p by (rule mset_sort_array)
  with s f sorted adjacent show ?thesis by blast
qed

lemma blog_getAllPosts:
  "getAllPosts blog_env =
     Inr [[(''title'', Str ''B''), (''date'', Str ''2022-01-01T00:00:00.000Z''),
           (''slug'', Str ''other''), (''content'', Str ''<p>World</p>'')],
          [(''title'', Str ''A''), (''date'', Str ''2021-01-01T00:00:00.000Z''),
           (''slug'', Str ''example''), (''content'', Str ''<p>Hello</p>'')]]"
proof -
  have s: "getPostSlugs blog_env = Inr [''example.md'', ''other.md'']"
    by (simp add: getPostSlugs_def readdirSync_def postsDirectory_def blog_env_def)
  have lt: "''2021-01-01T00:00:00.000Z'' < ''2022-01-01T00:00:00.000Z''"
    by simp
  show ?thesis
    unfolding getAllPosts_def s
    using lt
    by (simp add: blog_post_example blog_post_other sort_array_def by_date_def date_def
        get_prop_def)
qed

theorem getAllPosts_sorted_witness:
  "getAllPosts blog_env =
     Inr [[(''title'', Str ''B''), (''date'', Str ''2022-01-01T00:00:00.000Z''),
           (''slug'', Str ''other''), (''content'', Str ''<p>World</p>'')],
          [(''title'', Str ''A''), (''date'', Str ''2021-01-01T00:00:00.000Z''),
           (''slug'', Str ''example''), (''content'', Str ''<p>Hello</p>'')]]
   \<and> sorted_wrt date_ge
        [[(''title'', Str ''B''), (''date'', Str ''2022-01-01T00:00:00.000Z''),
          (''slug'', Str ''other''), (''content'', Str ''<p>World</p>'')],
         [(''title'', Str ''A''), (''date'', Str ''2021-01-01T00:00:00.000Z''),
          (''slug'', Str ''example''), (''content'', Str ''<p>Hello</p>'')]]"
proof -
  have d: "\<forall>p \<in> set [[(''title'', Str ''B''), (''date'', Str ''2022-01-01T00:00:00.000Z''),
                       (''slug'', Str ''other''), (''content'', Str ''<p>World</p>'')],
                      [(''title'', Str ''A''), (''date'', Str ''2021-01-01T00:00:00.000Z''),
                       (''slug'', Str ''example''), (''content'', Str ''<p>Hello</p>'')]].
             \<exists>d. date p = Some (Str d)"
    by (simp add: date_def get_prop_def)
  show ?thesis
    using getAllPosts_sorted [OF blog_getAllPosts d] blog_getAllPosts by blast
qed

subsection \<open>Frontmatter\<close>

lemma getPostBySlug_matter_Inl:
  assumes "files (fs env) (fullPath env slug) = Some raw" and "matter env raw = Inl e"
  shows "getPostBySlug env slug = Inl e"
  using assms by (simp add: getPostBySlug_def readFileSync_Some)

lemma getPostBySlug_matter_Inr:
  assumes "files (fs env) (fullPath env slug) = Some raw"
    and "matter env raw = Inr (data, content)"
  shows "getPostBySlug env slug =
           (case markdownToHtml (unified env) (ambient env) content of
              Inl e \<Rightarrow> Inl e
            | Inr contentHtml \<Rightarrow>
                Inr (set_prop ''content'' (Str contentHtml)
                      (set_prop ''slug'' (Str (realSlug slug)) data)))"
  using assms by (simp add: getPostBySlug_def readFileSync_Some)

lemma drafts_fullPath: "fullPath drafts_env slug = ''/blog/_posts/'' @ realSlug slug @ ''.md''"
  by (simp add: fullPath_def postsDirectory_def drafts_env_def blog_env_def)

lemma drafts_matter: "matter drafts_env = matter_spec flat_fields"
  by (simp add: drafts_env_def blog_env_def)

text \<open>
  C4. A text that does not open with the delimiter line has no frontmatter block: the
  parser returns empty metadata and the whole text as the body, without an error.
  \<open>getPostBySlug\<close> then renders the whole text, and the post has the two properties it
  adds itself.
\<close>

theorem matter_without_frontmatter:
  assumes "\<not> opens_frontmatter raw"
    and "matter env = matter_spec keyvalues"
    and "files (fs env) (fullPath env slug) = Some raw"
  shows "matter env raw = Inr ([], raw)
         \<and> getPostBySlug env slug =
             (case markdownToHtml (unified env) (ambient env) raw of
                Inl e \<Rightarrow> Inl e
              | Inr contentHtml \<Rightarrow>
                  Inr [(''slug'', Str (realSlug slug)), (''content'', Str contentHtml)])"
proof -
  have m: "matter env raw = Inr ([], raw)"
    using assms(1,2) by (simp add: matter_spec_def)
  show ?thesis
    using m getPostBySlug_matter_Inr [OF assms(3) m] by (simp split: sum.splits)
qed

theorem matter_without_frontmatter_witness:
  "\<not> opens_frontmatter ''Just text''
   \<and> matter drafts_env ''Just text'' = Inr ([], ''Just text'')
   \<and> getPostBySlug drafts_env ''plain'' =
       Inr [(''slug'', Str ''plain''), (''content'', Str ''<p>Just text</p>'')]"
proof -
  have o: "\<not> opens_frontmatter ''Just text''"
    by (simp add: opens_frontmatter_def delimiter_def newline_def)
  have f: "files (fs drafts_env) (fullPath drafts_env ''plain'') = Some ''Just text''"
    unfolding drafts_fullPath by (simp add: drafts_env_def realSlug_def suffix_def)
  have r: "realSlug ''plain'' = ''plain''"
    by (simp add: realSlug_def suffix_def)
  have h: "markdownToHtml (unified drafts_env) (ambient drafts_env) ''Just text''
             = Inr ''<p>Just text</p>''"
    by (simp add: drafts_env_def blog_env_def plain_libraries_def spec_libraries_def
        markdownToHtml_def process_def parse_blocks_def fence_def to_paragraph_def newline_def)
  show ?thesis
    using o matter_without_frontmatter [OF o drafts_matter f]
    unfolding r h by simp
qed

text \<open>
  C5. A text that opens with the delimiter line and whose block is never closed, or is
  refused by the key-value format: the parser fails with \<open>MalformedFrontmatter\<close>, and so
  does \<open>getPostBySlug\<close> on the file, which has no handler.
\<close>

theorem malformed_frontmatter_propagates:
  assumes "malformed keyvalues raw"
    and "matter env = matter_spec keyvalues"
    and "files (fs env) (fullPath env slug) = Some raw"
  shows "matter env raw = Inl MalformedFrontmatter
         \<and> getPostBySlug env slug = Inl MalformedFrontmatter"
proof -
  have m: "matter env raw = Inl MalformedFrontmatter"
    using assms(1,2) by (auto simp: matter_spec_def malformed_def split: option.splits)
  show ?thesis
    using m getPostBySlug_matter_Inl [OF assms(3) m] by simp
qed

theorem malformed_frontmatter_propagates_witness:
  "malformed flat_fields (join_lines [''---'', ''title: A''])
   \<and> getPostBySlug drafts_env ''open'' = Inl MalformedFrontmatter
   \<and> malformed flat_fields (join_lines [''---'', ''no colon here'', ''---'', ''body''])
   \<and> getPostBySlug drafts_env ''bad'' = Inl MalformedFrontmatter"
proof -
  have o: "malformed flat_fields (join_lines [''---'', ''title: A''])"
    by (simp add: malformed_def opens_frontmatter_def frontmatter_block_def delimiter_def
        newline_def)
  have b: "malformed flat_fields (join_lines [''---'', ''no colon here'', ''---'', ''body''])"
    by (simp add: malformed_def opens_frontmatter_def frontmatter_block_def delimiter_def
        newline_def field_of_line_def)
  have fo: "files (fs drafts_env) (fullPath drafts_env ''open'')
              = Some (join_lines [''---'', ''title: A''])"
    unfolding drafts_fullPath by (simp add: drafts_env_def realSlug_def suffix_def)
  have fb: "files (fs drafts_env) (fullPath drafts_env ''bad'')
              = Some (join_lines [''---'', ''no colon here'', ''---'', ''body''])"
    unfolding drafts_fullPath by (simp add: drafts_env_def realSlug_def suffix_def)
  show ?thesis
    using o b malformed_frontmatter_propagates [OF o drafts_matter fo]
      malformed_frontmatter_propagates [OF b drafts_matter fb]
    by blast
qed

subsection \<open>Renderer\<close>



subsection \<open>The serializer writes well-formed HTML\<close>

lemma not_name_char [simp]:
  "\<not> name_char CHR ''>''" "\<not> name_char CHR '' ''" "\<not> name_char CHR ''/''"
  "\<not> name_char CHR ''=''" "\<not> name_char CHR ''<''"
  by (simp_all add: name_char_def)

















text \<open>The reader of well-formed HTML refuses what is not: some strings it rejects.\<close>

lemma well_formed_rejects:
  "\<not> well_formed ''<pre><code>x</code>''"
  "\<not> well_formed ''<pre><code>x</pre></code>''"
  "\<not> well_formed ''<code>1 < 2</code>''"
  "\<not> well_formed ''<code>a & b</code>''"
  "well_formed ''<pre><code>1 &lt; 2</code></pre>''"
  by (simp_all add: well_formed_def name_char_def)

subsection \<open>Code blocks with an unknown language\<close>
















end
